theory Spec2Isabelle
  imports Complex_Main "HOL-Library.Sublist"
begin

section \<open>Data model\<close>

text \<open>
  The harness of \<^verbatim>\<open>python_tests/pytest_input_generators.py\<close> and
  \<^verbatim>\<open>python_tests/pytest_ops.py\<close> builds samples out of Python values. The values
  the two files handle are modelled by \<open>pyval\<close>; a tensor is described by the call that
  made it. What \<^verbatim>\<open>torch.testing.make_tensor\<close> draws is random: the data of a
  tensor is a value of an arbitrary type \<open>'d\<close>, produced by a parameter \<open>mk\<close> that
  reads and advances the state of the random source.
\<close>

datatype torch_dtype =
  torch_bool | torch_uint8 | torch_int8 | torch_int16 | torch_int32 | torch_int64
  | torch_float16 | torch_bfloat16 | torch_float32 | torch_float64
  | torch_complex64 | torch_complex128

text \<open>The members of \<^verbatim>\<open>nvfuser.DataType\<close>; the generators use \<^verbatim>\<open>DataType.Float\<close> only.\<close>

datatype DataType = Double | Float | Half | BFloat16 | Int | Int32 | Bool | ComplexFloat | ComplexDouble

text \<open>The keyword arguments of one \<^verbatim>\<open>make_tensor\<close> call (\<open>None\<close>: not passed, or passed as None).\<close>

record make_tensor_kwargs =
  mt_shape :: "nat list"
  mt_device :: string
  mt_dtype :: torch_dtype
  mt_low :: "rat option"
  mt_high :: "rat option"
  mt_requires_grad :: bool
  mt_noncontiguous :: bool

datatype 'd tensor =
  MakeTensor make_tensor_kwargs 'd
  | AsStrided "'d tensor" "nat list" "nat list" nat

datatype 'd pyval =
  PyNone
  | PyBool bool
  | PyInt int
  | PyFloat rat
  | PyStr string
  | PyList "'d pyval list"
  | PyTuple "'d pyval list"
  | PyTensor "'d tensor"
  | PyDataType DataType

datatype exception_type =
  TypeError | RuntimeError | AssertionError | IndexError | AttributeError

text \<open>\<^verbatim>\<open>SampleInput(*args, **kwargs)\<close>: positional arguments and keyword arguments, in the order written.\<close>

record 'd SampleInput =
  args :: "'d pyval list"
  kwargs :: "(string \<times> 'd pyval) list"

text \<open>\<^verbatim>\<open>ErrorSample(kwargs, ex_str, ex_type)\<close>; the class is declared outside the two files.\<close>

record 'd ErrorSample =
  es_kwargs :: "(string \<times> 'd pyval) list"
  ex_str :: string
  ex_type :: exception_type

text \<open>
  The enumeration \<^verbatim>\<open>ReferenceType\<close> is declared outside the two files, which name its members
  \<open>Pytorch\<close> and \<open>Jax\<close>; \<open>OtherReference\<close> stands for every other member.
\<close>

datatype ReferenceType = Pytorch | Jax | OtherReference

record Domain =
  low :: "rat option"
  high :: "rat option"

text \<open>The fields of an \<^verbatim>\<open>OpInfo\<close> descriptor that the two files read or write.\<close>

record OpInfo =
  name :: string
  domain :: Domain
  symbolic_parameter_list :: "bool list option"
  is_fusion_input_op :: bool
  refernce_fn_type :: ReferenceType

fun ndim :: "'d tensor \<Rightarrow> nat" where
  "ndim (MakeTensor kw d) = length (mt_shape kw)"
| "ndim (AsStrided base shape strides offset) = length shape"

fun tensor_data :: "'d tensor \<Rightarrow> 'd" where
  "tensor_data (MakeTensor kw d) = d"
| "tensor_data (AsStrided base shape strides offset) = tensor_data base"

fun numel :: "'d tensor \<Rightarrow> nat" where
  "numel (MakeTensor kw d) = prod_list (mt_shape kw)"
| "numel (AsStrided base shape strides offset) = prod_list shape"

text \<open>The \<^verbatim>\<open>make_tensor\<close> call a tensor's storage comes from.\<close>

fun tensor_kwargs :: "'d tensor \<Rightarrow> make_tensor_kwargs" where
  "tensor_kwargs (MakeTensor kw d) = kw"
| "tensor_kwargs (AsStrided base shape strides offset) = tensor_kwargs base"

text \<open>
  A generator is run to its end: each \<^verbatim>\<open>yield\<close> adds one element, and the state of the
  random source is passed from one \<^verbatim>\<open>make_tensor\<close> call to the next.
\<close>

fun yield_all :: "('a \<Rightarrow> 's \<Rightarrow> 'b \<times> 's) \<Rightarrow> 'a list \<Rightarrow> 's \<Rightarrow> 'b list \<times> 's" where
  "yield_all f [] s = ([], s)"
| "yield_all f (x # xs) s =
     (case f x s of (y, s') \<Rightarrow> (case yield_all f xs s' of (ys, s'') \<Rightarrow> (y # ys, s'')))"

section \<open>The elementwise-unary generator\<close>

text \<open>
  \<^verbatim>\<open>make_arg = partial(make_tensor, device="cuda", dtype=dtype, low=low, high=high,
  requires_grad=requires_grad)\<close> with
  \<^verbatim>\<open>low = None if op.domain.low is None else max(-9, op.domain.low)\<close> and
  \<^verbatim>\<open>high = None if op.domain.high is None else min(9, op.domain.high)\<close>.
  The generator is called as the harness calls it, with no further keyword argument.
\<close>

definition elementwise_unary_make_arg ::
  "('s \<Rightarrow> make_tensor_kwargs \<Rightarrow> 'd \<times> 's) \<Rightarrow> OpInfo \<Rightarrow> torch_dtype \<Rightarrow> bool
     \<Rightarrow> nat list \<Rightarrow> bool \<Rightarrow> 's \<Rightarrow> 'd tensor \<times> 's" where
  "elementwise_unary_make_arg mk op dtype requires_grad shape noncontiguous s =
     (let lo = (case low (domain op) of None \<Rightarrow> None | Some l \<Rightarrow> Some (max (- 9) l));
          hi = (case high (domain op) of None \<Rightarrow> None | Some h \<Rightarrow> Some (min 9 h));
          kw = \<lparr>mt_shape = shape, mt_device = ''cuda'', mt_dtype = dtype, mt_low = lo,
                mt_high = hi, mt_requires_grad = requires_grad,
                mt_noncontiguous = noncontiguous\<rparr>
      in case mk s kw of (d, s') \<Rightarrow> (MakeTensor kw d, s'))"

definition shapes :: "nat list list" where
  "shapes = [[], [11], [4, 4], [1024, 1024], [64, 64, 64]]"

definition strided_cases :: "(nat list \<times> nat list \<times> nat) list" where
  "strided_cases =
     [([5, 6, 2], [1, 1, 7], 2),
      ([5, 5, 4], [1, 1, 7], 2),
      ([5, 5, 2], [4, 5, 7], 3),
      ([5, 5, 2], [5, 5, 7], 3),
      ([5, 5, 2], [5, 5, 5], 3),
      ([9, 5, 2], [0, 1, 7], 3)]"

definition elementwise_unary_generator ::
  "('s \<Rightarrow> make_tensor_kwargs \<Rightarrow> 'd \<times> 's) \<Rightarrow> OpInfo \<Rightarrow> torch_dtype \<Rightarrow> bool
     \<Rightarrow> 's \<Rightarrow> 'd SampleInput list \<times> 's" where
  "elementwise_unary_generator mk op dtype requires_grad s0 =
     (case yield_all
        (\<lambda>shape s. case elementwise_unary_make_arg mk op dtype requires_grad shape False s of
           (a, s') \<Rightarrow> (\<lparr>args = [PyTensor a], kwargs = []\<rparr>, s'))
        shapes s0 of (typical, s1) \<Rightarrow>
      case yield_all
        (\<lambda>shape s. case elementwise_unary_make_arg mk op dtype requires_grad shape True s of
           (a, s') \<Rightarrow> (\<lparr>args = [PyTensor a], kwargs = []\<rparr>, s'))
        shapes s1 of (noncontig, s2) \<Rightarrow>
      case yield_all
        (\<lambda>(shape, strides, offset) s.
           case elementwise_unary_make_arg mk op dtype requires_grad [500] False s of
             (a, s') \<Rightarrow> (\<lparr>args = [PyTensor (AsStrided a shape strides offset)], kwargs = []\<rparr>, s'))
        strided_cases s2 of (strided, s3) \<Rightarrow>
      (typical @ noncontig @ strided, s3))"

text \<open>The tensors among the positional arguments of a list of samples, in order.\<close>

fun tensors_of_args :: "'d pyval list \<Rightarrow> 'd tensor list" where
  "tensors_of_args [] = []"
| "tensors_of_args (PyTensor t # vs) = t # tensors_of_args vs"
| "tensors_of_args (v # vs) = tensors_of_args vs"

definition sample_tensors :: "'d SampleInput list \<Rightarrow> 'd tensor list" where
  "sample_tensors xs = concat (map (\<lambda>x. tensors_of_args (args x)) xs)"

text \<open>
  The largest storage position an \<^verbatim>\<open>as_strided(shape, strides, offset)\<close> view addresses
  (every extent of the six cases is positive), and the size of the storage it is carved from.
\<close>

fun view_extent :: "'d tensor \<Rightarrow> int" where
  "view_extent (AsStrided base shape strides offset) =
     int offset + sum_list (map (\<lambda>(n, st). (int n - 1) * int st) (zip shape strides))"
| "view_extent (MakeTensor kw d) = int (prod_list (mt_shape kw)) - 1"

fun storage_size :: "'d tensor \<Rightarrow> int" where
  "storage_size (AsStrided base shape strides offset) = storage_size base"
| "storage_size (MakeTensor kw d) = int (prod_list (mt_shape kw))"

text \<open>A stand-in for \<^verbatim>\<open>make_tensor\<close> in closed examples: the data drawn is named by the
  position of the random source, and every call moves the source on.\<close>

definition counting_make_tensor :: "nat \<Rightarrow> make_tensor_kwargs \<Rightarrow> nat \<times> nat" where
  "counting_make_tensor s kw = (s, Suc s)"

definition example_op :: OpInfo where
  "example_op = \<lparr>name = ''acos'', domain = \<lparr>low = Some (- 1), high = Some 1\<rparr>,
     symbolic_parameter_list = None, is_fusion_input_op = False, refernce_fn_type = Pytorch\<rparr>"

definition unbounded_op :: OpInfo where
  "unbounded_op = \<lparr>name = ''neg'', domain = \<lparr>low = None, high = None\<rparr>,
     symbolic_parameter_list = None, is_fusion_input_op = False, refernce_fn_type = Pytorch\<rparr>"

fun is_view :: "'d tensor \<Rightarrow> bool" where
  "is_view (AsStrided base shape strides offset) = True"
| "is_view (MakeTensor kw d) = False"

definition strided_views :: "'d SampleInput list \<Rightarrow> 'd tensor list" where
  "strided_views xs = filter is_view (sample_tensors xs)"

text \<open>The \<^verbatim>\<open>low\<close> and \<^verbatim>\<open>high\<close> that reached \<^verbatim>\<open>make_tensor\<close> for a tensor.\<close>

definition passed_bounds :: "'d tensor \<Rightarrow> rat option \<times> rat option" where
  "passed_bounds t = (mt_low (tensor_kwargs t), mt_high (tensor_kwargs t))"

text \<open>A sample without the random data of its tensors: shapes, strides, offsets, dtype,
  bounds and flags, and every argument that is not a tensor.\<close>

definition describe_sample :: "'d SampleInput \<Rightarrow> unit SampleInput" where
  "describe_sample x =
     \<lparr>args = map (map_pyval (\<lambda>_. ())) (args x),
      kwargs = map (\<lambda>(k, v). (k, map_pyval (\<lambda>_. ()) v)) (kwargs x)\<rparr>"

definition describe_error ::
  "'d SampleInput \<times> exception_type \<times> string \<Rightarrow> unit SampleInput \<times> exception_type \<times> string" where
  "describe_error y = (describe_sample (fst y), snd y)"

text \<open>
  \<^verbatim>\<open>make_tensor\<close> belongs to torch, not to the two files. Its documentation gives the range
  it draws from when \<^verbatim>\<open>low\<close> or \<^verbatim>\<open>high\<close> is None, by dtype: 0 and 2 for the boolean type, 0
  and 10 for unsigned integral types, -9 and 10 for signed integral types, -9 and 9 for
  floating and complex types; \<^verbatim>\<open>low\<close> is inclusive and \<^verbatim>\<open>high\<close> exclusive. The two tables
  below are modelled from that documentation.
\<close>

fun integral :: "torch_dtype \<Rightarrow> bool" where
  "integral torch_bool = True"
| "integral torch_uint8 = True"
| "integral torch_int8 = True"
| "integral torch_int16 = True"
| "integral torch_int32 = True"
| "integral torch_int64 = True"
| "integral d = False"

fun make_tensor_default_low :: "torch_dtype \<Rightarrow> rat" where
  "make_tensor_default_low torch_bool = 0"
| "make_tensor_default_low torch_uint8 = 0"
| "make_tensor_default_low d = - 9"

fun make_tensor_default_high :: "torch_dtype \<Rightarrow> rat" where
  "make_tensor_default_high torch_bool = 2"
| "make_tensor_default_high torch_uint8 = 10"
| "make_tensor_default_high torch_int8 = 10"
| "make_tensor_default_high torch_int16 = 10"
| "make_tensor_default_high torch_int32 = 10"
| "make_tensor_default_high torch_int64 = 10"
| "make_tensor_default_high d = 9"

text \<open>The range a tensor's values were drawn from: the bound that was passed, and the
  default of the dtype where None was passed.\<close>

definition effective_low :: "'d tensor \<Rightarrow> rat" where
  "effective_low t =
     (case mt_low (tensor_kwargs t) of
        None \<Rightarrow> make_tensor_default_low (mt_dtype (tensor_kwargs t))
      | Some l \<Rightarrow> l)"

definition effective_high :: "'d tensor \<Rightarrow> rat" where
  "effective_high t =
     (case mt_high (tensor_kwargs t) of
        None \<Rightarrow> make_tensor_default_high (mt_dtype (tensor_kwargs t))
      | Some h \<Rightarrow> h)"

text \<open>A value (for a complex dtype, a real or imaginary part) that \<^verbatim>\<open>make_tensor\<close> may draw
  for a tensor: at least the low bound, below the high bound, and a whole number when the
  dtype is integral. Where \<^verbatim>\<open>make_tensor\<close> moves a passed bound into the range of the dtype
  it draws from a part of this range.\<close>

definition drawable :: "'d tensor \<Rightarrow> rat \<Rightarrow> bool" where
  "drawable t v =
     (effective_low t \<le> v \<and> v < effective_high t
      \<and> (if integral (mt_dtype (tensor_kwargs t)) then of_int (floor v) = v else True))"

section \<open>The tensor-definition generators\<close>

definition define_tensor_generator ::
  "OpInfo \<Rightarrow> torch_dtype \<Rightarrow> bool \<Rightarrow> 'd SampleInput list" where
  "define_tensor_generator op dtype requires_grad =
     [\<lparr>args = [], kwargs = [(''symbolic_sizes'', PyList [PyInt (- 1)]),
                             (''contiguity'', PyList [PyBool True])]\<rparr>]"

definition MINIMUM_SYMBOLIC_SIZE :: int where
  "MINIMUM_SYMBOLIC_SIZE = - 1"

definition INT64_MAX :: int where
  "INT64_MAX = 9223372036854775807"

definition MAX_TENSOR_DIMS :: nat where
  "MAX_TENSOR_DIMS = 8"

text \<open>
  \<^verbatim>\<open>ErrorSample(kwargs, ex_str)\<close> leaves the exception type to the default of the class, which
  is declared outside the two files: the default is the parameter \<open>default_ex_type\<close>.
\<close>

definition check_size_contiguity_match :: "exception_type \<Rightarrow> 'd ErrorSample" where
  "check_size_contiguity_match default_ex_type =
     \<lparr>es_kwargs = [(''symbolic_sizes'', PyList [PyInt (- 1), PyInt (- 1)]),
                   (''contiguity'', PyList [PyBool True, PyBool True, PyBool True]),
                   (''dtype'', PyDataType Float)],
      ex_str = ''The size of contiguity must equal to the number of non-broadcasting IterDomains'',
      ex_type = default_ex_type\<rparr>"

definition check_empty_tensor_size :: "exception_type \<Rightarrow> 'd ErrorSample" where
  "check_empty_tensor_size default_ex_type =
     \<lparr>es_kwargs = [(''symbolic_sizes'', PyList []), (''contiguity'', PyList [])],
      ex_str = ''The specified tensor dimensionality exceeds the max tensor size for nvfuser.'',
      ex_type = default_ex_type\<rparr>"

definition check_max_tensor_size :: "exception_type \<Rightarrow> 'd ErrorSample" where
  "check_max_tensor_size default_ex_type =
     \<lparr>es_kwargs = [(''symbolic_sizes'', PyList (replicate (MAX_TENSOR_DIMS + 1) (PyInt (- 1)))),
                   (''contiguity'', PyList (replicate (MAX_TENSOR_DIMS + 1) (PyBool True)))],
      ex_str = ''The specified tensor dimensionality exceeds the max tensor size for nvfuser.'',
      ex_type = default_ex_type\<rparr>"

definition check_above_size_range :: "'d ErrorSample" where
  "check_above_size_range =
     \<lparr>es_kwargs = [(''symbolic_sizes'', PyList [PyInt (INT64_MAX + 1)]),
                   (''contiguity'', PyList [PyBool True])],
      ex_str = ''define_tensor(): incompatible function arguments'',
      ex_type = TypeError\<rparr>"

definition check_below_size_range :: "exception_type \<Rightarrow> 'd ErrorSample" where
  "check_below_size_range default_ex_type =
     \<lparr>es_kwargs = [(''symbolic_sizes'', PyList [PyInt (MINIMUM_SYMBOLIC_SIZE - 1)]),
                   (''contiguity'', PyList [PyBool True])],
      ex_str = ''The value -2 at index 0 was neither symbolic(-1), zero_element(0), broadcast(1), or static(>1)'',
      ex_type = default_ex_type\<rparr>"

definition define_tensor_error_cases :: "exception_type \<Rightarrow> 'd ErrorSample list" where
  "define_tensor_error_cases default_ex_type =
     [check_size_contiguity_match default_ex_type,
      check_above_size_range,
      check_below_size_range default_ex_type]"

text \<open>One \<^verbatim>\<open>input_tensor\<close> is made before the loop and every yielded sample holds it.\<close>

definition define_tensor_error_generator ::
  "('s \<Rightarrow> make_tensor_kwargs \<Rightarrow> 'd \<times> 's) \<Rightarrow> exception_type \<Rightarrow> OpInfo \<Rightarrow> torch_dtype \<Rightarrow> bool
     \<Rightarrow> 's \<Rightarrow> ('d SampleInput \<times> exception_type \<times> string) list \<times> 's" where
  "define_tensor_error_generator mk default_ex_type op dtype requires_grad s0 =
     (let kw = \<lparr>mt_shape = [10, 10], mt_device = ''cuda'', mt_dtype = dtype, mt_low = None,
                mt_high = None, mt_requires_grad = requires_grad, mt_noncontiguous = False\<rparr>
      in case mk s0 kw of (d, s1) \<Rightarrow>
        (map (\<lambda>es. (\<lparr>args = [PyTensor (MakeTensor kw d)], kwargs = es_kwargs es\<rparr>,
                     ex_type es, ex_str es))
           (define_tensor_error_cases default_ex_type), s1))"

section \<open>The slice generators\<close>

text \<open>\<^verbatim>\<open>make_arg = partial(make_tensor, device="cuda", dtype=dtype,
  requires_grad=requires_grad)\<close>, in both slice generators.\<close>

definition slice_make_arg ::
  "('s \<Rightarrow> make_tensor_kwargs \<Rightarrow> 'd \<times> 's) \<Rightarrow> torch_dtype \<Rightarrow> bool \<Rightarrow> nat list \<Rightarrow> 's
     \<Rightarrow> 'd tensor \<times> 's" where
  "slice_make_arg mk dtype requires_grad shape s =
     (let kw = \<lparr>mt_shape = shape, mt_device = ''cuda'', mt_dtype = dtype, mt_low = None,
                mt_high = None, mt_requires_grad = requires_grad, mt_noncontiguous = False\<rparr>
      in case mk s kw of (d, s') \<Rightarrow> (MakeTensor kw d, s'))"

text \<open>\<^verbatim>\<open>shape, start_indices, end_indices\<close> of each case.\<close>

definition slice_cases :: "(nat list \<times> 'd pyval \<times> 'd pyval) list" where
  "slice_cases =
     [([5, 7, 8], PyTuple [PyInt 1, PyInt 0, PyInt 3], PyTuple [PyInt 2, PyInt 6, PyInt 8]),
      ([3], PyTuple [PyInt 1], PyTuple [PyInt 2])]"

definition slice_generator ::
  "('s \<Rightarrow> make_tensor_kwargs \<Rightarrow> 'd \<times> 's) \<Rightarrow> OpInfo \<Rightarrow> torch_dtype \<Rightarrow> bool
     \<Rightarrow> 's \<Rightarrow> 'd SampleInput list \<times> 's" where
  "slice_generator mk op dtype requires_grad s0 =
     yield_all
       (\<lambda>(shape, start_indices, end_indices) s.
          case slice_make_arg mk dtype requires_grad shape s of
            (a, s') \<Rightarrow> (\<lparr>args = [PyTensor a],
                         kwargs = [(''start_indices'', start_indices),
                                   (''end_indices'', end_indices)]\<rparr>, s'))
       slice_cases s0"

definition slice_error_kwargs :: "int list \<Rightarrow> int list \<Rightarrow> int list \<Rightarrow> (string \<times> 'd pyval) list" where
  "slice_error_kwargs start_indices end_indices strides =
     [(''start_indices'', PyList (map PyInt start_indices)),
      (''end_indices'', PyList (map PyInt end_indices)),
      (''strides'', PyList (map PyInt strides))]"

definition check_start_indices :: "exception_type \<Rightarrow> 'd ErrorSample" where
  "check_start_indices default_ex_type =
     \<lparr>es_kwargs = slice_error_kwargs [- 1, - 2] [5, 5] [7, 7],
      ex_str = ''Slice operation start_indices must be greater-than-or-equal-to 0.'',
      ex_type = default_ex_type\<rparr>"

definition check_end_indices :: "exception_type \<Rightarrow> 'd ErrorSample" where
  "check_end_indices default_ex_type =
     \<lparr>es_kwargs = slice_error_kwargs [3, 4] [1, 2] [1, 1],
      ex_str = ''Slice operation end_indices must be greater-than-or-equal-to start_indices.'',
      ex_type = default_ex_type\<rparr>"

definition check_strides :: "exception_type \<Rightarrow> 'd ErrorSample" where
  "check_strides default_ex_type =
     \<lparr>es_kwargs = slice_error_kwargs [0, 0] [5, 5] [5, 5],
      ex_str = ''nvFuser Limitation: All slice operation strides must be of size 1.'',
      ex_type = default_ex_type\<rparr>"

definition check_tensor_dims :: "exception_type \<Rightarrow> 'd ErrorSample" where
  "check_tensor_dims default_ex_type =
     \<lparr>es_kwargs = slice_error_kwargs [0, 0, 0] [4, 4, 4] [1, 1, 1],
      ex_str = ''Number of tensor dimensions does not match slice dimensions!'',
      ex_type = default_ex_type\<rparr>"

definition check_slice_dims_start :: "exception_type \<Rightarrow> 'd ErrorSample" where
  "check_slice_dims_start default_ex_type =
     \<lparr>es_kwargs = slice_error_kwargs [0, 0, 0] [4, 4] [1, 1],
      ex_str = ''Slice start_indices and strides don't match!'',
      ex_type = default_ex_type\<rparr>"

definition check_slice_dims_end :: "exception_type \<Rightarrow> 'd ErrorSample" where
  "check_slice_dims_end default_ex_type =
     \<lparr>es_kwargs = slice_error_kwargs [0, 0] [4, 4, 4] [1, 1],
      ex_str = ''Slice indexing attribute dimensions don't match!'',
      ex_type = default_ex_type\<rparr>"

definition check_slice_dims_stride :: "exception_type \<Rightarrow> 'd ErrorSample" where
  "check_slice_dims_stride default_ex_type =
     \<lparr>es_kwargs = slice_error_kwargs [0, 0] [4, 4] [1, 1, 1],
      ex_str = ''Slice start_indices and strides don't match!'',
      ex_type = default_ex_type\<rparr>"

definition slice_error_cases :: "exception_type \<Rightarrow> 'd ErrorSample list" where
  "slice_error_cases default_ex_type =
     [check_start_indices default_ex_type,
      check_end_indices default_ex_type,
      check_strides default_ex_type,
      check_tensor_dims default_ex_type,
      check_slice_dims_start default_ex_type,
      check_slice_dims_end default_ex_type,
      check_slice_dims_stride default_ex_type]"

definition slice_error_shapes :: "nat list list" where
  "slice_error_shapes = [[10, 10], [5, 5]]"

text \<open>A tensor is made for every pair of a shape and an error case.\<close>

definition slice_error_generator ::
  "('s \<Rightarrow> make_tensor_kwargs \<Rightarrow> 'd \<times> 's) \<Rightarrow> exception_type \<Rightarrow> OpInfo \<Rightarrow> torch_dtype \<Rightarrow> bool
     \<Rightarrow> 's \<Rightarrow> ('d SampleInput \<times> exception_type \<times> string) list \<times> 's" where
  "slice_error_generator mk default_ex_type op dtype requires_grad s0 =
     yield_all
       (\<lambda>(shape, es) s.
          case slice_make_arg mk dtype requires_grad shape s of
            (input_tensor, s') \<Rightarrow>
              ((\<lparr>args = [PyTensor input_tensor], kwargs = es_kwargs es\<rparr>,
                ex_type es, ex_str es), s'))
       (List.product slice_error_shapes (slice_error_cases default_ex_type)) s0"

section \<open>The reduction generators\<close>

text \<open>
  \<^verbatim>\<open>make_arg = partial(make_tensor, device="cuda", dtype=dtype,
  requires_grad=requires_grad, low=-2, high=3)\<close>, in both reduction generators.
\<close>

definition reduction_make_arg ::
  "('s \<Rightarrow> make_tensor_kwargs \<Rightarrow> 'd \<times> 's) \<Rightarrow> torch_dtype \<Rightarrow> bool \<Rightarrow> nat list \<Rightarrow> 's
     \<Rightarrow> 'd tensor \<times> 's" where
  "reduction_make_arg mk dtype requires_grad shape s =
     (let kw = \<lparr>mt_shape = shape, mt_device = ''cuda'', mt_dtype = dtype, mt_low = Some (- 2),
                mt_high = Some 3, mt_requires_grad = requires_grad, mt_noncontiguous = False\<rparr>
      in case mk s kw of (d, s') \<Rightarrow> (MakeTensor kw d, s'))"

text \<open>\<^verbatim>\<open>shape, dim, keepdim, dtype\<close> of each case.\<close>

definition reduction_cases :: "(nat list \<times> 'd pyval \<times> bool \<times> 'd pyval) list" where
  "reduction_cases =
     [([4, 4], PyNone, False, PyNone),
      ([5], PyNone, True, PyNone),
      ([5], PyTuple [PyInt 0], False, PyNone),
      ([8, 1, 6], PyTuple [PyInt 1], True, PyNone),
      ([8, 7, 5, 1], PyTuple [PyInt 0, PyInt 1], True, PyNone),
      ([8, 7, 5, 1], PyTuple [PyInt 1, PyInt 3], False, PyNone)]"

definition reduction_generator ::
  "('s \<Rightarrow> make_tensor_kwargs \<Rightarrow> 'd \<times> 's) \<Rightarrow> OpInfo \<Rightarrow> torch_dtype \<Rightarrow> bool
     \<Rightarrow> 's \<Rightarrow> 'd SampleInput list \<times> 's" where
  "reduction_generator mk op dtype requires_grad s0 =
     yield_all
       (\<lambda>(shape, dim', keepdim, case_dtype) s.
          case reduction_make_arg mk dtype requires_grad shape s of
            (a, s') \<Rightarrow> (\<lparr>args = [PyTensor a, dim', PyBool keepdim],
                         kwargs = [(''dtype'', case_dtype)]\<rparr>, s'))
       reduction_cases s0"

text \<open>The error cases are triples \<^verbatim>\<open>(axis_fn, ex_type, ex_str)\<close>; the list \<^verbatim>\<open>error_cases\<close>
  holds the first of the four.\<close>

definition int_dtype_axis :: "(nat \<Rightarrow> 'd pyval) \<times> exception_type \<times> string" where
  "int_dtype_axis =
     (\<lambda>dims. PyFloat (of_nat dims), TypeError, ''var_mean(): incompatible function arguments.'')"

definition duplicate_axis :: "(nat \<Rightarrow> 'd pyval) \<times> exception_type \<times> string" where
  "duplicate_axis =
     (\<lambda>dims. PyTuple [PyInt 0, PyInt 0, PyInt 0], RuntimeError, ''Reduction axes are not unique'')"

definition lower_bound :: "(nat \<Rightarrow> 'd pyval) \<times> exception_type \<times> string" where
  "lower_bound =
     (\<lambda>dims. PyTuple [PyInt (- int dims - 1)], RuntimeError, ''Reduction on invalid axis'')"

definition upper_bound :: "(nat \<Rightarrow> 'd pyval) \<times> exception_type \<times> string" where
  "upper_bound =
     (\<lambda>dims. PyTuple [PyInt (int dims)], RuntimeError, ''Reduction on invalid axis'')"

definition reduction_error_cases :: "((nat \<Rightarrow> 'd pyval) \<times> exception_type \<times> string) list" where
  "reduction_error_cases = [int_dtype_axis]"

definition reduction_error_shapes :: "nat list list" where
  "reduction_error_shapes = [[8, 1, 6], [8, 7, 5, 1]]"

definition reduction_error_generator ::
  "('s \<Rightarrow> make_tensor_kwargs \<Rightarrow> 'd \<times> 's) \<Rightarrow> OpInfo \<Rightarrow> torch_dtype \<Rightarrow> bool
     \<Rightarrow> 's \<Rightarrow> ('d SampleInput \<times> exception_type \<times> string) list \<times> 's" where
  "reduction_error_generator mk op dtype requires_grad s0 =
     yield_all
       (\<lambda>(shape, axis_fn, ex_type, ex_str) s.
          case reduction_make_arg mk dtype requires_grad shape s of
            (input_tensor, s') \<Rightarrow>
              ((\<lparr>args = [PyTensor input_tensor, axis_fn (length shape)], kwargs = []\<rparr>,
                ex_type, ex_str), s'))
       (List.product reduction_error_shapes reduction_error_cases) s0"

text \<open>The rank of a sample's tensor and the axis passed with it.\<close>

fun rank_and_axis :: "'d SampleInput \<times> exception_type \<times> string \<Rightarrow> (nat \<times> 'd pyval) option" where
  "rank_and_axis (x, t, m) =
     (case args x of [PyTensor a, axis] \<Rightarrow> Some (ndim a, axis) | _ \<Rightarrow> None)"

section \<open>The variance-mean generator\<close>

text \<open>Python's truth value of an object. A tensor of one element has the truth value of
  that element, which is random data: \<open>nonzero\<close> reads it off the data of the tensor. A
  tensor of any other number of elements has none, and asking for it raises a RuntimeError:
  \<open>None\<close>.\<close>

fun truthy :: "('d \<Rightarrow> bool) \<Rightarrow> 'd pyval \<Rightarrow> bool option" where
  "truthy nonzero PyNone = Some False"
| "truthy nonzero (PyBool b) = Some b"
| "truthy nonzero (PyInt i) = Some (i \<noteq> 0)"
| "truthy nonzero (PyFloat x) = Some (x \<noteq> 0)"
| "truthy nonzero (PyStr s) = Some (s \<noteq> [])"
| "truthy nonzero (PyList vs) = Some (vs \<noteq> [])"
| "truthy nonzero (PyTuple vs) = Some (vs \<noteq> [])"
| "truthy nonzero (PyTensor t) = (if numel t = 1 then Some (nonzero (tensor_data t)) else None)"
| "truthy nonzero (PyDataType d) = Some True"

text \<open>The body of the loop of \<^verbatim>\<open>var_mean_generator\<close>, for one correction and one sample.
  \<^verbatim>\<open>a.ndim\<close> is read only when the sample's own axis is not taken.\<close>

definition var_mean_sample ::
  "('d \<Rightarrow> bool) \<Rightarrow> int \<Rightarrow> 'd SampleInput \<Rightarrow> exception_type + 'd SampleInput" where
  "var_mean_sample nonzero c sample =
     (case args sample of
        [] \<Rightarrow> Inl IndexError
      | a # rest \<Rightarrow>
          (case (if length (args sample) > 1 then truthy nonzero (args sample ! 1)
                 else Some False) of
             None \<Rightarrow> Inl RuntimeError
           | Some given \<Rightarrow>
               (case (if given then Inr (args sample ! 1)
                      else (case a of
                              PyTensor t \<Rightarrow> Inr (PyTuple (map (\<lambda>i. PyInt (int i)) [0..<ndim t]))
                            | _ \<Rightarrow> Inl AttributeError)) of
                  Inl e \<Rightarrow> Inl e
                | Inr dim' \<Rightarrow>
                    (let keepdim = (if length (args sample) > 2 then args sample ! 2
                                    else PyBool False)
                     in Inr \<lparr>args = [a, dim'],
                             kwargs = [(''correction'', PyInt c), (''keepdim'', keepdim)]\<rparr>))))"

text \<open>A generator that raises ends there: the first exception is the result.\<close>

fun collect :: "('e + 'a) list \<Rightarrow> 'e + 'a list" where
  "collect [] = Inr []"
| "collect (Inl e # xs) = Inl e"
| "collect (Inr x # xs) = (case collect xs of Inl e \<Rightarrow> Inl e | Inr ys \<Rightarrow> Inr (x # ys))"

text \<open>\<^verbatim>\<open>itertools.product(correction, samples)\<close> runs the reduction generator once, to its
  end, and pairs each correction with each of its samples, the correction outermost.\<close>

definition var_mean_generator ::
  "('d \<Rightarrow> bool) \<Rightarrow> ('s \<Rightarrow> make_tensor_kwargs \<Rightarrow> 'd \<times> 's) \<Rightarrow> OpInfo \<Rightarrow> torch_dtype \<Rightarrow> bool
     \<Rightarrow> 's \<Rightarrow> (exception_type + 'd SampleInput list) \<times> 's" where
  "var_mean_generator nonzero mk op dtype requires_grad s0 =
     (case reduction_generator mk op dtype requires_grad s0 of
        (samples, s1) \<Rightarrow>
          (collect (map (\<lambda>(c, sample). var_mean_sample nonzero c sample)
                      (List.product [0, 1] samples)), s1))"

text \<open>\<^verbatim>\<open>tuple(range(a.ndim))\<close> for a tensor argument.\<close>

fun all_dims :: "'d pyval \<Rightarrow> 'd pyval" where
  "all_dims (PyTensor t) = PyTuple (map (\<lambda>i. PyInt (int i)) [0..<ndim t])"
| "all_dims v = PyNone"

section \<open>The execution adapter\<close>

text \<open>
  The fusion definition is the system under test and is not part of the two files. Of a
  \<^verbatim>\<open>FusionDefinition\<close> the model keeps the input definitions made so far, oldest first;
  the object a definition call returns is named by the position of that call.
\<close>

datatype 'd fd_call =
  from_pytorch "'d pyval"
  | define_vector "'d pyval"
  | define_scalar "'d pyval"

fun fd_call_arg :: "'d fd_call \<Rightarrow> 'd pyval" where
  "fd_call_arg (from_pytorch a) = a"
| "fd_call_arg (define_vector a) = a"
| "fd_call_arg (define_scalar a) = a"

datatype 'd nvf_arg = Defined nat | Raw "'d pyval"

text \<open>\<^verbatim>\<open>type(a) is torch.Tensor\<close>, and \<^verbatim>\<open>type(a) is list or type(a) is tuple\<close>.\<close>

fun is_tensor :: "'d pyval \<Rightarrow> bool" where
  "is_tensor (PyTensor t) = True"
| "is_tensor v = False"

fun is_list_or_tuple :: "'d pyval \<Rightarrow> bool" where
  "is_list_or_tuple (PyList vs) = True"
| "is_list_or_tuple (PyTuple vs) = True"
| "is_list_or_tuple v = False"

text \<open>The loop over \<^verbatim>\<open>zip(opinfo.symbolic_parameter_list, args)\<close>. A failed assertion ends
  it; the definitions made before stay in the fusion definition.\<close>

fun parse_inputs_loop ::
  "(bool \<times> 'd pyval) list \<Rightarrow> 'd fd_call list \<Rightarrow> 'd nvf_arg list
     \<Rightarrow> (exception_type + 'd nvf_arg list) \<times> 'd fd_call list" where
  "parse_inputs_loop [] fd nvf_args = (Inr nvf_args, fd)"
| "parse_inputs_loop ((is_symbolic, a) # rest) fd nvf_args =
     (if is_symbolic then
        (if is_tensor a then
           parse_inputs_loop rest (fd @ [from_pytorch a]) (nvf_args @ [Defined (length fd)])
         else if is_list_or_tuple a then
           parse_inputs_loop rest (fd @ [define_vector a]) (nvf_args @ [Defined (length fd)])
         else
           parse_inputs_loop rest (fd @ [define_scalar a]) (nvf_args @ [Defined (length fd)]))
      else if is_tensor a then (Inl AssertionError, fd)
      else parse_inputs_loop rest fd (nvf_args @ [Raw a]))"

text \<open>
  The function writes the descriptor: the result holds the fusion definition and the
  descriptor as the call leaves them, also when an assertion fails.
\<close>

definition parse_inputs_fusion_definition ::
  "'d fd_call list \<Rightarrow> OpInfo \<Rightarrow> 'd pyval list
     \<Rightarrow> (exception_type + 'd nvf_arg list) \<times> 'd fd_call list \<times> OpInfo" where
  "parse_inputs_fusion_definition fd opinfo as =
     (if length as = 0 then (Inr [], fd, opinfo)
      else
        (let spl = (case symbolic_parameter_list opinfo of
                      None \<Rightarrow> replicate (length as) True
                    | Some l \<Rightarrow> l);
             opinfo' = opinfo\<lparr>symbolic_parameter_list := Some spl\<rparr>
         in if length spl \<noteq> length as then (Inl AssertionError, fd, opinfo')
            else (case parse_inputs_loop (zip spl as) fd [] of
                    (r, fd') \<Rightarrow> (r, fd', opinfo'))))"

text \<open>\<^verbatim>\<open>zip(None, args)\<close> raises a TypeError. The parameter \<^verbatim>\<open>fd\<close> is not used.\<close>

definition parse_args_fusion_execution ::
  "'d fd_call list \<Rightarrow> OpInfo \<Rightarrow> 'd pyval list \<Rightarrow> exception_type + 'd pyval list" where
  "parse_args_fusion_execution fd opinfo as =
     (case symbolic_parameter_list opinfo of
        None \<Rightarrow> Inl TypeError
      | Some spl \<Rightarrow> Inr (map snd (filter fst (zip spl as))))"

section \<open>The snippets\<close>

record exception =
  ex_kind :: exception_type
  ex_message :: string

text \<open>
  \<^verbatim>\<open>snippet_definition_op_in_schedule_error\<close>. The class \<^verbatim>\<open>SchedError\<close> is run by the system
  under test: \<open>execute\<close> is what \<^verbatim>\<open>SchedError().execute(inputs)\<close> raises, if anything, and
  \<open>interp\<close> is the text the interpreter gives an exception of its own. The arguments of
  \<^verbatim>\<open>fd.execute\<close> are evaluated first, inside the \<^verbatim>\<open>try\<close>; constructing the object is
  taken to raise nothing.
\<close>

definition schedule_error_exception ::
  "(exception_type \<Rightarrow> string) \<Rightarrow> ('d pyval list \<Rightarrow> exception option) \<Rightarrow> OpInfo
     \<Rightarrow> 'd SampleInput \<Rightarrow> exception option" where
  "schedule_error_exception interp execute nvf_op sample =
     (case parse_args_fusion_execution [] nvf_op (args sample) of
        Inl e \<Rightarrow> Some \<lparr>ex_kind = e, ex_message = interp e\<rparr>
      | Inr inputs \<Rightarrow> execute inputs)"

text \<open>The result is \<open>Inl\<close> with the message of the assertion that failed, or \<open>Inr ()\<close>.\<close>

definition snippet_definition_op_in_schedule_error ::
  "(exception_type \<Rightarrow> string) \<Rightarrow> ('d pyval list \<Rightarrow> exception option) \<Rightarrow> OpInfo
     \<Rightarrow> 'd SampleInput \<Rightarrow> string + unit" where
  "snippet_definition_op_in_schedule_error interp execute nvf_op sample =
     (case schedule_error_exception interp execute nvf_op sample of
        None \<Rightarrow> Inl ''Expected an exception''
      | Some e \<Rightarrow>
          if sublist ''Attempting to add to a completed definition!'' (ex_message e)
          then Inr ()
          else Inl ''Failed to find correct expection error message'')"

text \<open>A system under test that raises a RuntimeError with a given message.\<close>

definition raising :: "string \<Rightarrow> 'd pyval list \<Rightarrow> exception option" where
  "raising msg inputs = Some \<lparr>ex_kind = RuntimeError, ex_message = msg\<rparr>"

definition all_symbolic_op :: OpInfo where
  "all_symbolic_op = \<lparr>name = ''tanh'', domain = \<lparr>low = None, high = None\<rparr>,
     symbolic_parameter_list = Some [True], is_fusion_input_op = False,
     refernce_fn_type = Pytorch\<rparr>"







text \<open>An interpreter that gives its own exceptions no text.\<close>

definition silent :: "exception_type \<Rightarrow> string" where
  "silent e = []"

text \<open>What the loop of the adapter appends for a list of marked arguments when \<open>k\<close>
  definitions were made before: the next position for a symbolic argument, the argument
  itself for a concrete one.\<close>

fun adapted :: "nat \<Rightarrow> (bool \<times> 'd pyval) list \<Rightarrow> 'd nvf_arg list" where
  "adapted k [] = []"
| "adapted k ((is_symbolic, a) # rest) =
     (if is_symbolic then Defined k # adapted (Suc k) rest else Raw a # adapted k rest)"

section \<open>Properties of the generators\<close>

lemma yield_all_map:
  "(\<And>x s. g (fst (f x s)) = h x) \<Longrightarrow> map g (fst (yield_all f xs s)) = map h xs"
proof (induction xs arbitrary: s)
  case Nil
  then show ?case by simp
next
  case (Cons x xs)
  have "g (fst (f x s)) = h x" by (rule Cons.prems)
  moreover have "map g (fst (yield_all f xs (snd (f x s)))) = map h xs"
    by (rule Cons.IH) (rule Cons.prems)
  ultimately show ?case by (simp add: case_prod_beta)
qed

lemmas elementwise_unary_unfold =
  elementwise_unary_generator_def case_prod_beta shapes_def strided_cases_def
  sample_tensors_def elementwise_unary_make_arg_def Let_def

lemma elementwise_unary_views:
  "map (\<lambda>t. (storage_size t, view_extent t))
     (strided_views (fst (elementwise_unary_generator mk op dtype rg s)))
   = [(500, 18), (500, 31), (500, 46), (500, 50), (500, 48), (500, 14)]"
  by (simp add: elementwise_unary_unfold strided_views_def)

lemma elementwise_unary_passed_bounds:
  "map passed_bounds (sample_tensors (fst (elementwise_unary_generator mk op dtype rg s)))
   = replicate 16
       (case low (domain op) of None \<Rightarrow> None | Some l \<Rightarrow> Some (max (- 9) l),
        case high (domain op) of None \<Rightarrow> None | Some h \<Rightarrow> Some (min 9 h))"
  by (simp add: elementwise_unary_unfold passed_bounds_def numeral_eq_Suc)

lemma elementwise_unary_first:
  "MakeTensor \<lparr>mt_shape = [], mt_device = ''cuda'', mt_dtype = torch_float32,
       mt_low = Some (- 1), mt_high = Some 1, mt_requires_grad = False,
       mt_noncontiguous = False\<rparr> (0::nat)
     \<in> set (sample_tensors (fst (elementwise_unary_generator counting_make_tensor example_op
               torch_float32 False 0)))"
  by (simp add: elementwise_unary_unfold counting_make_tensor_def example_op_def)

text \<open>
  C10. Every arbitrarily-strided view the elementwise-unary generator yields is carved from
  a storage of 500 elements and addresses no position beyond it: there are six views, and
  for each the offset plus the sum of \<open>(shape[i] - 1) * strides[i]\<close> is below 500.
\<close>

theorem strided_views_within_buffer:
  "length (strided_views (fst (elementwise_unary_generator mk op dtype rg s))) = 6 \<and>
   (\<forall>t \<in> set (strided_views (fst (elementwise_unary_generator mk op dtype rg s))).
      storage_size t = 500 \<and> view_extent t < storage_size t)"
proof -
  let ?vs = "strided_views (fst (elementwise_unary_generator mk op dtype rg s))"
  have m: "map (\<lambda>t. (storage_size t, view_extent t)) ?vs
             = [(500, 18), (500, 31), (500, 46), (500, 50), (500, 48), (500, 14)]"
    by (rule elementwise_unary_views)
  have len: "length ?vs = 6"
    using arg_cong [OF m, of length] by simp
  have "\<forall>p \<in> set (map (\<lambda>t. (storage_size t, view_extent t)) ?vs). fst p = 500 \<and> snd p < fst p"
    unfolding m by simp
  then have "\<forall>t \<in> set ?vs. storage_size t = 500 \<and> view_extent t < storage_size t"
    by auto
  with len show ?thesis by blast
qed

theorem strided_views_within_buffer_witness:
  "AsStrided (MakeTensor \<lparr>mt_shape = [500], mt_device = ''cuda'', mt_dtype = torch_float32,
       mt_low = Some (- 1), mt_high = Some 1, mt_requires_grad = False,
       mt_noncontiguous = False\<rparr> (10::nat)) [5, 6, 2] [1, 1, 7] 2
     \<in> set (strided_views (fst (elementwise_unary_generator counting_make_tensor example_op
               torch_float32 False 0)))
   \<and> view_extent (AsStrided (MakeTensor \<lparr>mt_shape = [500], mt_device = ''cuda'',
       mt_dtype = torch_float32, mt_low = Some (- 1), mt_high = Some 1,
       mt_requires_grad = False, mt_noncontiguous = False\<rparr> (10::nat)) [5, 6, 2] [1, 1, 7] 2) < 500"
proof -
  let ?t = "AsStrided (MakeTensor \<lparr>mt_shape = [500], mt_device = ''cuda'', mt_dtype = torch_float32,
       mt_low = Some (- 1), mt_high = Some 1, mt_requires_grad = False,
       mt_noncontiguous = False\<rparr> (10::nat)) [5, 6, 2] [1, 1, 7] 2"
  let ?vs = "strided_views (fst (elementwise_unary_generator counting_make_tensor example_op
               torch_float32 False 0))"
  have mem: "?t \<in> set ?vs"
    by (simp add: elementwise_unary_unfold strided_views_def counting_make_tensor_def
          example_op_def)
  from strided_views_within_buffer [of counting_make_tensor example_op torch_float32 False 0]
  have "\<forall>t \<in> set ?vs. storage_size t = 500 \<and> view_extent t < storage_size t" by blast
  with mem have "storage_size ?t = 500 \<and> view_extent ?t < storage_size ?t" by blast
  with mem show ?thesis by simp
qed

lemma elementwise_unary_dtypes:
  "map (\<lambda>t. mt_dtype (tensor_kwargs t))
     (sample_tensors (fst (elementwise_unary_generator mk op dtype rg s)))
   = replicate 16 dtype"
  by (simp add: elementwise_unary_unfold numeral_eq_Suc)

lemma make_tensor_default_low_ge: "- 9 \<le> make_tensor_default_low d"
  by (cases d) simp_all

lemma make_tensor_default_high_le:
  "make_tensor_default_high d \<le> (if integral d then 10 else 9)"
  by (cases d) simp_all

lemma whole_below_ten:
  assumes whole: "of_int (floor v) = (v :: rat)" and below: "v < 10"
  shows "v \<le> 9"
proof -
  from below have "floor v < 10" by (simp add: floor_less_iff)
  then have "floor v \<le> 9" by simp
  then have "(of_int (floor v) :: rat) \<le> of_int 9" by (simp only: of_int_le_iff)
  then have "(of_int (floor v) :: rat) \<le> 9" by simp
  then show ?thesis by (simp only: whole)
qed

lemma elementwise_unary_unbounded_first:
  "MakeTensor \<lparr>mt_shape = [], mt_device = ''cuda'', mt_dtype = torch_int64,
       mt_low = None, mt_high = None, mt_requires_grad = False,
       mt_noncontiguous = False\<rparr> (0::nat)
     \<in> set (sample_tensors (fst (elementwise_unary_generator counting_make_tensor unbounded_op
               torch_int64 False 0)))"
  by (simp add: elementwise_unary_unfold counting_make_tensor_def unbounded_op_def)

text \<open>
  C3. Every tensor the elementwise-unary generator yields draws its values from the natural
  domain of the operator cut to [-9, 9]. A domain bound that is present is passed to
  \<^verbatim>\<open>make_tensor\<close> as \<^verbatim>\<open>max(-9, low)\<close> or \<^verbatim>\<open>min(9, high)\<close>; for a bound that is None the generator
  passes None, and the range is the default of \<^verbatim>\<open>make_tensor\<close> for the dtype. In both cases
  the effective low bound is at least -9 and not below the low bound of the domain; the
  effective high bound is not above the high bound of the domain and is at most 9, but for
  the default of an integral dtype, where it is the exclusive bound 10; and every value that
  can be drawn lies between -9 and 9 and within the bounds of the domain.
\<close>

theorem elementwise_unary_bounds_clamped:
  assumes "t \<in> set (sample_tensors (fst (elementwise_unary_generator mk op dtype rg s)))"
  shows "mt_low (tensor_kwargs t)
           = (case low (domain op) of None \<Rightarrow> None | Some l \<Rightarrow> Some (max (- 9) l))
       \<and> mt_high (tensor_kwargs t)
           = (case high (domain op) of None \<Rightarrow> None | Some h \<Rightarrow> Some (min 9 h))
       \<and> (\<forall>b. mt_low (tensor_kwargs t) = Some b \<longrightarrow> - 9 \<le> b)
       \<and> (\<forall>b. mt_high (tensor_kwargs t) = Some b \<longrightarrow> b \<le> 9)
       \<and> - 9 \<le> effective_low t
       \<and> (if integral dtype \<and> high (domain op) = None
          then effective_high t \<le> 10 else effective_high t \<le> 9)
       \<and> (\<forall>l. low (domain op) = Some l \<longrightarrow> l \<le> effective_low t)
       \<and> (\<forall>h. high (domain op) = Some h \<longrightarrow> effective_high t \<le> h)
       \<and> (\<forall>v. drawable t v \<longrightarrow>
             - 9 \<le> v \<and> v \<le> 9
             \<and> (\<forall>l. low (domain op) = Some l \<longrightarrow> l \<le> v)
             \<and> (\<forall>h. high (domain op) = Some h \<longrightarrow> v < h))"
proof -
  let ?lo = "case low (domain op) of None \<Rightarrow> None | Some l \<Rightarrow> Some (max (- 9) l)"
  let ?hi = "case high (domain op) of None \<Rightarrow> None | Some h \<Rightarrow> Some (min 9 h)"
  let ?ts = "sample_tensors (fst (elementwise_unary_generator mk op dtype rg s))"
  from assms have "passed_bounds t \<in> set (map passed_bounds ?ts)"
    by simp
  then have "passed_bounds t \<in> set (replicate 16 (?lo, ?hi))"
    by (simp only: elementwise_unary_passed_bounds)
  then have pb: "passed_bounds t = (?lo, ?hi)"
    by simp
  then have lo: "mt_low (tensor_kwargs t) = ?lo" and hi: "mt_high (tensor_kwargs t) = ?hi"
    by (simp_all add: passed_bounds_def)
  from assms have "mt_dtype (tensor_kwargs t) \<in> set (map (\<lambda>t. mt_dtype (tensor_kwargs t)) ?ts)"
    by simp
  then have "mt_dtype (tensor_kwargs t) \<in> set (replicate 16 dtype)"
    by (simp only: elementwise_unary_dtypes)
  then have dt: "mt_dtype (tensor_kwargs t) = dtype"
    by simp
  have plo: "\<forall>b. ?lo = Some b \<longrightarrow> - 9 \<le> b"
    by (cases "low (domain op)") auto
  have phi: "\<forall>b. ?hi = Some b \<longrightarrow> b \<le> 9"
    by (cases "high (domain op)") auto
  have elo: "effective_low t
      = (case low (domain op) of None \<Rightarrow> make_tensor_default_low dtype | Some l \<Rightarrow> max (- 9) l)"
    by (cases "low (domain op)") (simp_all add: effective_low_def lo dt)
  have ehi: "effective_high t
      = (case high (domain op) of None \<Rightarrow> make_tensor_default_high dtype | Some h \<Rightarrow> min 9 h)"
    by (cases "high (domain op)") (simp_all add: effective_high_def hi dt)
  have low9: "- 9 \<le> effective_low t"
    using make_tensor_default_low_ge [of dtype]
    by (cases "low (domain op)") (simp_all add: elo)
  have high9: "if integral dtype \<and> high (domain op) = None
          then effective_high t \<le> 10 else effective_high t \<le> 9"
    using make_tensor_default_high_le [of dtype]
    by (cases "high (domain op)") (simp_all add: ehi split: if_splits)
  have dlo: "\<forall>l. low (domain op) = Some l \<longrightarrow> l \<le> effective_low t"
    by (simp add: elo)
  have dhi: "\<forall>h. high (domain op) = Some h \<longrightarrow> effective_high t \<le> h"
    by (simp add: ehi)
  have vals: "- 9 \<le> v \<and> v \<le> 9" if d: "drawable t v" for v
  proof
    from d have "effective_low t \<le> v" by (simp add: drawable_def)
    with low9 show "- 9 \<le> v" by simp
  next
    from d have below: "v < effective_high t" by (simp add: drawable_def)
    show "v \<le> 9"
    proof (cases "integral dtype \<and> high (domain op) = None")
      case True
      with high9 below have "v < 10" by simp
      moreover from d True dt have "of_int (floor v) = v" by (simp add: drawable_def)
      ultimately show ?thesis by (rule whole_below_ten [rotated])
    next
      case False
      with high9 have "effective_high t \<le> 9" by (simp split: if_splits)
      with below show ?thesis by simp
    qed
  qed
  have dom: "(\<forall>l. low (domain op) = Some l \<longrightarrow> l \<le> v)
           \<and> (\<forall>h. high (domain op) = Some h \<longrightarrow> v < h)" if d: "drawable t v" for v
  proof -
    from d have "effective_low t \<le> v" and "v < effective_high t"
      by (simp_all add: drawable_def)
    with dlo dhi show ?thesis by fastforce
  qed
  from vals dom have every: "\<forall>v. drawable t v \<longrightarrow>
             - 9 \<le> v \<and> v \<le> 9
             \<and> (\<forall>l. low (domain op) = Some l \<longrightarrow> l \<le> v)
             \<and> (\<forall>h. high (domain op) = Some h \<longrightarrow> v < h)"
    by blast
  from plo have plo': "\<forall>b. mt_low (tensor_kwargs t) = Some b \<longrightarrow> - 9 \<le> b"
    by (simp only: lo)
  from phi have phi': "\<forall>b. mt_high (tensor_kwargs t) = Some b \<longrightarrow> b \<le> 9"
    by (simp only: hi)
  from lo hi plo' phi' low9 high9 dlo dhi every show ?thesis
    by (intro conjI)
qed

theorem elementwise_unary_bounds_clamped_witness:
  "MakeTensor \<lparr>mt_shape = [], mt_device = ''cuda'', mt_dtype = torch_int64,
       mt_low = None, mt_high = None, mt_requires_grad = False,
       mt_noncontiguous = False\<rparr> (0::nat)
     \<in> set (sample_tensors (fst (elementwise_unary_generator counting_make_tensor unbounded_op
               torch_int64 False 0)))
   \<and> drawable (MakeTensor \<lparr>mt_shape = [], mt_device = ''cuda'', mt_dtype = torch_int64,
       mt_low = None, mt_high = None, mt_requires_grad = False,
       mt_noncontiguous = False\<rparr> (0::nat)) 9
   \<and> effective_low (MakeTensor \<lparr>mt_shape = [], mt_device = ''cuda'', mt_dtype = torch_int64,
       mt_low = None, mt_high = None, mt_requires_grad = False,
       mt_noncontiguous = False\<rparr> (0::nat)) = - 9
   \<and> (9 :: rat) \<le> 9"
proof -
  let ?t = "MakeTensor \<lparr>mt_shape = [], mt_device = ''cuda'', mt_dtype = torch_int64,
       mt_low = None, mt_high = None, mt_requires_grad = False,
       mt_noncontiguous = False\<rparr> (0::nat)"
  have d: "drawable ?t 9"
    by (simp add: drawable_def effective_low_def effective_high_def)
  have e: "effective_low ?t = - 9"
    by (simp add: effective_low_def)
  from elementwise_unary_bounds_clamped [OF elementwise_unary_unbounded_first]
  have "\<forall>v. drawable ?t v \<longrightarrow> - 9 \<le> v \<and> v \<le> 9" by blast
  with d have "(9 :: rat) \<le> 9" by blast
  with elementwise_unary_unbounded_first d e show ?thesis by blast
qed

lemma elementwise_unary_description:
  "map describe_sample (fst (elementwise_unary_generator mk op dtype rg s))
   = map describe_sample (fst (elementwise_unary_generator mk' op dtype rg s'))"
  by (simp add: elementwise_unary_generator_def case_prod_beta
        yield_all_map [where g = describe_sample] describe_sample_def
        elementwise_unary_make_arg_def Let_def)

lemma reduction_description:
  "map describe_sample (fst (reduction_generator mk op dtype rg s))
   = map describe_sample (fst (reduction_generator mk' op dtype rg s'))"
  by (simp add: reduction_generator_def reduction_cases_def case_prod_beta
        describe_sample_def reduction_make_arg_def Let_def)

lemma define_tensor_description:
  "map describe_sample (define_tensor_generator op dtype rg :: 'd SampleInput list)
   = map describe_sample (define_tensor_generator op dtype rg :: 'e SampleInput list)"
  by (simp add: define_tensor_generator_def describe_sample_def)

lemma define_tensor_error_description:
  "map describe_error (fst (define_tensor_error_generator mk dflt op dtype rg s))
   = map describe_error (fst (define_tensor_error_generator mk' dflt op dtype rg s'))"
  by (simp add: define_tensor_error_generator_def define_tensor_error_cases_def
        check_size_contiguity_match_def check_above_size_range_def check_below_size_range_def
        describe_error_def describe_sample_def case_prod_beta Let_def)

lemma slice_description:
  "map describe_sample (fst (slice_generator mk op dtype rg s))
   = map describe_sample (fst (slice_generator mk' op dtype rg s'))"
  by (simp add: slice_generator_def slice_cases_def slice_make_arg_def
        describe_sample_def case_prod_beta Let_def)

lemma slice_error_description:
  "map describe_error (fst (slice_error_generator mk dflt op dtype rg s))
   = map describe_error (fst (slice_error_generator mk' dflt op dtype rg s'))"
  by (simp add: slice_error_generator_def slice_error_shapes_def slice_error_cases_def
        check_start_indices_def check_end_indices_def check_strides_def check_tensor_dims_def
        check_slice_dims_start_def check_slice_dims_end_def check_slice_dims_stride_def
        slice_error_kwargs_def slice_make_arg_def describe_error_def describe_sample_def
        case_prod_beta Let_def)

lemma reduction_error_description:
  "map describe_error (fst (reduction_error_generator mk op dtype rg s))
   = map describe_error (fst (reduction_error_generator mk' op dtype rg s'))"
  by (simp add: reduction_error_generator_def reduction_error_shapes_def
        reduction_error_cases_def int_dtype_axis_def reduction_make_arg_def
        describe_error_def describe_sample_def case_prod_beta Let_def)

lemma var_mean_description:
  "map_sum id (map describe_sample) (fst (var_mean_generator nonzero mk op dtype rg s))
   = map_sum id (map describe_sample) (fst (var_mean_generator nonzero' mk' op dtype rg s'))"
  by (simp add: var_mean_generator_def reduction_generator_def reduction_cases_def
        reduction_make_arg_def var_mean_sample_def describe_sample_def case_prod_beta Let_def
        upt_rec numeral_eq_Suc)

text \<open>
  C9, as the code has it. Every sample generator is restartable and deterministic in what
  it yields but the random data: two runs of the same generator with the same operator,
  dtype and gradient flag yield the same number of samples, pairwise equal in everything
  but the data of their tensors (shape, strides, offset, dtype, bounds, flags, every
  argument that is not a tensor, the expected exception and its message), whatever the
  random source and its state. This holds for the eight generators of the file.
\<close>

theorem generators_restartable:
  fixes mk :: "'s \<Rightarrow> make_tensor_kwargs \<Rightarrow> 'd \<times> 's"
    and mk' :: "'t \<Rightarrow> make_tensor_kwargs \<Rightarrow> 'e \<times> 't"
  shows
  "length (fst (elementwise_unary_generator mk op dtype rg s))
     = length (fst (elementwise_unary_generator mk' op dtype rg s'))
   \<and> map describe_sample (fst (elementwise_unary_generator mk op dtype rg s))
     = map describe_sample (fst (elementwise_unary_generator mk' op dtype rg s'))
   \<and> length (fst (reduction_generator mk op dtype rg s))
     = length (fst (reduction_generator mk' op dtype rg s'))
   \<and> map describe_sample (fst (reduction_generator mk op dtype rg s))
     = map describe_sample (fst (reduction_generator mk' op dtype rg s'))
   \<and> length (define_tensor_generator op dtype rg :: 'd SampleInput list)
     = length (define_tensor_generator op dtype rg :: 'e SampleInput list)
   \<and> map describe_sample (define_tensor_generator op dtype rg :: 'd SampleInput list)
     = map describe_sample (define_tensor_generator op dtype rg :: 'e SampleInput list)
   \<and> length (fst (define_tensor_error_generator mk dflt op dtype rg s))
     = length (fst (define_tensor_error_generator mk' dflt op dtype rg s'))
   \<and> map describe_error (fst (define_tensor_error_generator mk dflt op dtype rg s))
     = map describe_error (fst (define_tensor_error_generator mk' dflt op dtype rg s'))
   \<and> length (fst (slice_generator mk op dtype rg s))
     = length (fst (slice_generator mk' op dtype rg s'))
   \<and> map describe_sample (fst (slice_generator mk op dtype rg s))
     = map describe_sample (fst (slice_generator mk' op dtype rg s'))
   \<and> length (fst (slice_error_generator mk dflt op dtype rg s))
     = length (fst (slice_error_generator mk' dflt op dtype rg s'))
   \<and> map describe_error (fst (slice_error_generator mk dflt op dtype rg s))
     = map describe_error (fst (slice_error_generator mk' dflt op dtype rg s'))
   \<and> length (fst (reduction_error_generator mk op dtype rg s))
     = length (fst (reduction_error_generator mk' op dtype rg s'))
   \<and> map describe_error (fst (reduction_error_generator mk op dtype rg s))
     = map describe_error (fst (reduction_error_generator mk' op dtype rg s'))
   \<and> map_sum id length (fst (var_mean_generator nonzero mk op dtype rg s))
     = map_sum id length (fst (var_mean_generator nonzero' mk' op dtype rg s'))
   \<and> map_sum id (map describe_sample) (fst (var_mean_generator nonzero mk op dtype rg s))
     = map_sum id (map describe_sample) (fst (var_mean_generator nonzero' mk' op dtype rg s'))"
proof -
  note e = elementwise_unary_description [of mk op dtype rg s mk' s']
  note r = reduction_description [of mk op dtype rg s mk' s']
  note d = define_tensor_description [of op dtype rg, where ?'d = 'd and ?'e = 'e]
  note de = define_tensor_error_description [of mk dflt op dtype rg s mk' s']
  note sl = slice_description [of mk op dtype rg s mk' s']
  note se = slice_error_description [of mk dflt op dtype rg s mk' s']
  note re = reduction_error_description [of mk op dtype rg s mk' s']
  note vm = var_mean_description [of nonzero mk op dtype rg s nonzero' mk' s']
  have vml: "map_sum id length (fst (var_mean_generator nonzero mk op dtype rg s))
     = map_sum id length (fst (var_mean_generator nonzero' mk' op dtype rg s'))"
  proof -
    have count: "map_sum id length (map_sum id (map describe_sample) x) = map_sum id length x"
      for x :: "exception_type + 'a SampleInput list"
      by (cases x) simp_all
    have "map_sum id length (fst (var_mean_generator nonzero mk op dtype rg s))
        = map_sum id length
            (map_sum id (map describe_sample) (fst (var_mean_generator nonzero mk op dtype rg s)))"
      by (simp only: count)
    also have "\<dots> = map_sum id length
            (map_sum id (map describe_sample) (fst (var_mean_generator nonzero' mk' op dtype rg s')))"
      by (simp only: vm)
    also have "\<dots> = map_sum id length (fst (var_mean_generator nonzero' mk' op dtype rg s'))"
      by (simp only: count)
    finally show ?thesis .
  qed
  from map_eq_imp_length_eq [OF e] map_eq_imp_length_eq [OF r] map_eq_imp_length_eq [OF d]
    map_eq_imp_length_eq [OF de] map_eq_imp_length_eq [OF sl] map_eq_imp_length_eq [OF se]
    map_eq_imp_length_eq [OF re] e r d de sl se re vm vml
  show ?thesis by (intro conjI)
qed

text \<open>
  C9 as stated fails: the values come from \<^verbatim>\<open>make_tensor\<close>, which draws from the random
  source and moves it on. A second run, started where the first left the source, yields
  tensors with other data.
\<close>

theorem generators_restartable_counterexample:
  "map tensor_data (sample_tensors (fst (elementwise_unary_generator counting_make_tensor
      example_op torch_float32 False 0)))
   \<noteq> map tensor_data (sample_tensors (fst (elementwise_unary_generator counting_make_tensor
      example_op torch_float32 False
      (snd (elementwise_unary_generator counting_make_tensor example_op torch_float32 False 0)))))"
  by (simp add: elementwise_unary_unfold counting_make_tensor_def)


lemma replicate_MAX_TENSOR_DIMS:
  "replicate MAX_TENSOR_DIMS v = v # v # replicate 6 v"
  by (simp add: MAX_TENSOR_DIMS_def numeral_eq_Suc)

text \<open>
  C6. The tensor-definition error generator yields exactly three cases, in this order:
  \<^verbatim>\<open>symbolic_sizes=[-1,-1]\<close> with \<^verbatim>\<open>contiguity=[True,True,True]\<close>, expecting a message that
  contains "The size of contiguity must equal to the number of non-broadcasting IterDomains";
  a size of \<open>INT64_MAX + 1\<close>, expecting a TypeError that contains "define_tensor():
  incompatible function arguments"; and a size of -2, one below the least symbolic size,
  expecting a message that contains "The value -2 at index 0". The cases for an empty
  dimensionality and for nine dimensions are not among them.
\<close>

theorem define_tensor_error_cases_enabled:
  "map (\<lambda>(x, t, m). (map_of (kwargs x) ''symbolic_sizes'', map_of (kwargs x) ''contiguity'', m))
     (fst (define_tensor_error_generator mk default_ex_type op dtype rg s))
   = [(Some (PyList [PyInt (- 1), PyInt (- 1)]),
       Some (PyList [PyBool True, PyBool True, PyBool True]),
       ''The size of contiguity must equal to the number of non-broadcasting IterDomains''),
      (Some (PyList [PyInt 9223372036854775808]),
       Some (PyList [PyBool True]),
       ''define_tensor(): incompatible function arguments''),
      (Some (PyList [PyInt (- 2)]),
       Some (PyList [PyBool True]),
       ''The value -2 at index 0 was neither symbolic(-1), zero_element(0), broadcast(1), or static(>1)'')]
   \<and> map (\<lambda>(x, t, m). t) (fst (define_tensor_error_generator mk default_ex_type op dtype rg s))
       = [default_ex_type, TypeError, default_ex_type]
   \<and> sublist ''The value -2 at index 0''
        ''The value -2 at index 0 was neither symbolic(-1), zero_element(0), broadcast(1), or static(>1)''
   \<and> INT64_MAX + 1 = 2 ^ 63 \<and> MINIMUM_SYMBOLIC_SIZE - 1 = - 2
   \<and> map es_kwargs (define_tensor_error_cases default_ex_type :: 'd ErrorSample list)
       = map es_kwargs [check_size_contiguity_match default_ex_type :: 'd ErrorSample,
                        check_above_size_range, check_below_size_range default_ex_type]
   \<and> length (filter (\<lambda>(x, t, m). map_of (kwargs x) ''symbolic_sizes'' = Some (PyList []))
        (fst (define_tensor_error_generator mk default_ex_type op dtype rg s))) = 0
   \<and> length (filter (\<lambda>(x, t, m). map_of (kwargs x) ''symbolic_sizes''
                                     = Some (PyList (replicate (MAX_TENSOR_DIMS + 1) (PyInt (- 1)))))
        (fst (define_tensor_error_generator mk default_ex_type op dtype rg s))) = 0"
proof -
  have pre: "prefix ''The value -2 at index 0''
        ''The value -2 at index 0 was neither symbolic(-1), zero_element(0), broadcast(1), or static(>1)''"
    by simp
  have sub: "sublist ''The value -2 at index 0''
        ''The value -2 at index 0 was neither symbolic(-1), zero_element(0), broadcast(1), or static(>1)''"
    by (rule prefix_imp_sublist [OF pre])
  note nine = replicate_MAX_TENSOR_DIMS
  show ?thesis
    using sub
    by (simp add: define_tensor_error_generator_def define_tensor_error_cases_def
          check_size_contiguity_match_def check_above_size_range_def check_below_size_range_def
          INT64_MAX_def MINIMUM_SYMBOLIC_SIZE_def nine case_prod_beta Let_def)
qed

lemma reduction_error_samples:
  "map rank_and_axis (fst (reduction_error_generator mk op dtype rg s))
     = [Some (3, PyFloat 3), Some (4, PyFloat 4)]
   \<and> map (\<lambda>(x, t, m). t) (fst (reduction_error_generator mk op dtype rg s))
     = [TypeError, TypeError]
   \<and> map (\<lambda>(x, t, m). m) (fst (reduction_error_generator mk op dtype rg s))
     = [''var_mean(): incompatible function arguments.'',
        ''var_mean(): incompatible function arguments.'']"
  by (simp add: reduction_error_generator_def reduction_error_shapes_def
        reduction_error_cases_def int_dtype_axis_def reduction_make_arg_def
        case_prod_beta Let_def)

text \<open>
  C7, as the code has it. Of the four designed cases the list of enabled error cases holds
  one, the floating-point axis. The reduction error generator yields two samples, a tensor
  of rank 3 with axis 3.0 and a tensor of rank 4 with axis 4.0 (the axis is the rank as a
  float); each expects a TypeError whose message contains "incompatible function
  arguments".
\<close>

theorem reduction_error_float_axis:
  "length (reduction_error_cases :: ((nat \<Rightarrow> 'd pyval) \<times> exception_type \<times> string) list) = 1
   \<and> map rank_and_axis
        (fst (reduction_error_generator mk op dtype rg s)
           :: ('d SampleInput \<times> exception_type \<times> string) list)
       = [Some (3, PyFloat 3), Some (4, PyFloat 4)]
   \<and> map (\<lambda>(x, t, m). t) (fst (reduction_error_generator mk op dtype rg s))
       = [TypeError, TypeError]
   \<and> list_all (\<lambda>(x, t, m). sublist ''incompatible function arguments'' m)
        (fst (reduction_error_generator mk op dtype rg s))"
proof -
  have sub: "sublist ''incompatible function arguments''
               ''var_mean(): incompatible function arguments.''"
    by (simp add: sublist_code)
  have "map (\<lambda>(x, t, m). m) (fst (reduction_error_generator mk op dtype rg s))
       = [''var_mean(): incompatible function arguments.'',
          ''var_mean(): incompatible function arguments.'']"
    using reduction_error_samples [of mk op dtype rg s] by blast
  then have "list_all (sublist ''incompatible function arguments'')
               (map (\<lambda>(x, t, m). m) (fst (reduction_error_generator mk op dtype rg s)))"
    using sub by simp
  then have m: "list_all (\<lambda>(x, t, m). sublist ''incompatible function arguments'' m)
        (fst (reduction_error_generator mk op dtype rg s))"
    by (simp add: list_all_iff case_prod_beta)
  from reduction_error_samples [of mk op dtype rg s] m show ?thesis
    by (simp add: reduction_error_cases_def)
qed

text \<open>
  C7 as stated fails: no yielded sample pairs axis 4.0 with a tensor of rank 3. The tensor
  of rank 3 comes with axis 3.0, and axis 4.0 comes with the tensor of rank 4.
\<close>

theorem reduction_error_float_axis_counterexample:
  "map rank_and_axis
     (fst (reduction_error_generator counting_make_tensor example_op torch_float32 False 0))
     = [Some (3, PyFloat 3), Some (4, PyFloat 4)]
   \<and> Some (3, PyFloat 4)
       \<notin> set (map rank_and_axis
           (fst (reduction_error_generator counting_make_tensor example_op torch_float32 False 0)))"
  by (simp add: reduction_error_generator_def reduction_error_shapes_def
        reduction_error_cases_def int_dtype_axis_def reduction_make_arg_def
        case_prod_beta Let_def counting_make_tensor_def)

text \<open>
  C8. The variance-mean generator raises nothing and yields one sample per pair of a
  correction in (0, 1) and a sample of the reduction generator, the correction outermost:
  twice as many samples as the reduction generator. Each keeps the tensor and the
  keep-dimensions flag of its base sample; its axis is the base sample's axis when that is
  not None and the tuple of all dimensions \<open>(0, ..., ndim - 1)\<close> of the tensor when it is.
\<close>

theorem var_mean_rewraps_reduction:
  "\<exists>vm. fst (var_mean_generator nonzero mk op dtype rg s) = Inr vm
     \<and> length vm = 2 * length (fst (reduction_generator mk op dtype rg s))
     \<and> map (\<lambda>x. map_of (kwargs x) ''correction'') vm
         = replicate (length (fst (reduction_generator mk op dtype rg s))) (Some (PyInt 0))
           @ replicate (length (fst (reduction_generator mk op dtype rg s))) (Some (PyInt 1))
     \<and> map (\<lambda>x. args x ! 0) vm
         = map (\<lambda>b. args b ! 0)
             (fst (reduction_generator mk op dtype rg s) @ fst (reduction_generator mk op dtype rg s))
     \<and> map (\<lambda>x. map_of (kwargs x) ''keepdim'') vm
         = map (\<lambda>b. Some (args b ! 2))
             (fst (reduction_generator mk op dtype rg s) @ fst (reduction_generator mk op dtype rg s))
     \<and> map (\<lambda>x. args x ! 1) vm
         = map (\<lambda>b. if args b ! 1 = PyNone then all_dims (args b ! 0) else args b ! 1)
             (fst (reduction_generator mk op dtype rg s) @ fst (reduction_generator mk op dtype rg s))
     \<and> map (\<lambda>x. length (args x)) vm = replicate (length vm) 2"
  by (simp add: var_mean_generator_def reduction_generator_def reduction_cases_def
        reduction_make_arg_def var_mean_sample_def case_prod_beta Let_def upt_rec numeral_eq_Suc)


section \<open>Properties of the adapter and the snippets\<close>

text \<open>
  C1, as the code has it. The definition/schedule-separation snippet passes exactly when an
  exception was caught and its text contains "Attempting to add to a completed definition!"
  (a substring test on that text, capital A and exclamation mark included). With no
  exception it fails with "Expected an exception".
\<close>

theorem schedule_error_snippet_passes_iff:
  "(snippet_definition_op_in_schedule_error interp execute nvf_op sample = Inr ())
     = (\<exists>e. schedule_error_exception interp execute nvf_op sample = Some e
            \<and> sublist ''Attempting to add to a completed definition!'' (ex_message e))
   \<and> (snippet_definition_op_in_schedule_error interp execute nvf_op sample
         = Inl ''Expected an exception'')
     = (schedule_error_exception interp execute nvf_op sample = None)"
  by (simp add: snippet_definition_op_in_schedule_error_def split: option.splits)

text \<open>
  C1 as stated fails: the snippet passes on the message "Attempting to add to a completed
  definition!", which is not the string of the claim, and it fails when the message is
  exactly the string of the claim.
\<close>

theorem schedule_error_snippet_counterexample:
  "snippet_definition_op_in_schedule_error silent
       (raising ''Attempting to add to a completed definition!'') all_symbolic_op
       \<lparr>args = [PyInt 1 :: nat pyval], kwargs = []\<rparr> = Inr ()
   \<and> ''Attempting to add to a completed definition!''
       \<noteq> ''attempting to add to a completed definition''
   \<and> snippet_definition_op_in_schedule_error silent
       (raising ''attempting to add to a completed definition'') all_symbolic_op
       \<lparr>args = [PyInt 1 :: nat pyval], kwargs = []\<rparr>
       = Inl ''Failed to find correct expection error message''"
  by (simp add: snippet_definition_op_in_schedule_error_def schedule_error_exception_def
        parse_args_fusion_execution_def all_symbolic_op_def raising_def sublist_code)




text \<open>
  C4, as the code has it. \<^verbatim>\<open>parse_inputs_fusion_definition\<close> changes no field of the
  descriptor but \<^verbatim>\<open>symbolic_parameter_list\<close>, and that one only when it is None and the
  argument list is not empty: it then becomes a list of True, one for each argument. With an
  empty argument list, or a list that is already set, the descriptor after the call equals
  the descriptor before it.
\<close>

theorem parse_inputs_descriptor_effect:
  "snd (snd (parse_inputs_fusion_definition fd opinfo as))
     = opinfo\<lparr>symbolic_parameter_list :=
         (if as = [] then symbolic_parameter_list opinfo
          else case symbolic_parameter_list opinfo of
                 None \<Rightarrow> Some (replicate (length as) True)
               | Some l \<Rightarrow> Some l)\<rparr>
   \<and> (as = [] \<or> symbolic_parameter_list opinfo \<noteq> None
        \<longrightarrow> snd (snd (parse_inputs_fusion_definition fd opinfo as)) = opinfo)"
  by (auto simp: parse_inputs_fusion_definition_def Let_def case_prod_beta
        split: option.splits)

theorem parse_inputs_descriptor_effect_witness:
  "symbolic_parameter_list all_symbolic_op \<noteq> None
   \<and> snd (snd (parse_inputs_fusion_definition [] all_symbolic_op [PyInt 1 :: nat pyval]))
       = all_symbolic_op"
  using parse_inputs_descriptor_effect [of "[]" all_symbolic_op "[PyInt 1 :: nat pyval]"]
  by (simp add: all_symbolic_op_def)

text \<open>
  C4 as stated fails: on a descriptor whose \<^verbatim>\<open>symbolic_parameter_list\<close> is None and one
  argument, the call leaves the descriptor with the list \<open>[True]\<close>.
\<close>

theorem parse_inputs_descriptor_counterexample:
  "snd (snd (parse_inputs_fusion_definition [] example_op [PyInt 1 :: nat pyval]))
     = example_op\<lparr>symbolic_parameter_list := Some [True]\<rparr>
   \<and> snd (snd (parse_inputs_fusion_definition [] example_op [PyInt 1 :: nat pyval]))
     \<noteq> example_op"
  by (simp add: parse_inputs_fusion_definition_def example_op_def Let_def)

text \<open>
  C5 at the input the code misses. The sample of \<^verbatim>\<open>define_tensor_generator\<close> has no
  positional argument. On a descriptor whose \<^verbatim>\<open>symbolic_parameter_list\<close> is None the
  definition-time adapter returns the empty list and leaves the descriptor as it is, and
  the execution-time selector then raises a TypeError where the claim has it return the
  (empty) list of all arguments.
\<close>

theorem parse_args_unset_list_raises:
  "map (\<lambda>x. parse_inputs_fusion_definition [] example_op (args x))
     (define_tensor_generator example_op torch_float32 False :: nat SampleInput list)
     = [(Inr [], [], example_op)]
   \<and> map (\<lambda>x. parse_args_fusion_execution [] example_op (args x))
     (define_tensor_generator example_op torch_float32 False :: nat SampleInput list)
     = [Inl TypeError]"
  by (simp add: define_tensor_generator_def parse_inputs_fusion_definition_def
        parse_args_fusion_execution_def example_op_def)


lemma parse_inputs_loop_adapted:
  "parse_inputs_loop zs fd acc = (Inr r, fd') \<Longrightarrow>
     map fd_call_arg fd' = map fd_call_arg fd @ map snd (filter fst zs)
     \<and> r = acc @ adapted (length fd) zs
     \<and> (\<forall>z \<in> set zs. \<not> fst z \<longrightarrow> \<not> is_tensor (snd z))"
  by (induction zs fd acc rule: parse_inputs_loop.induct) (auto split: if_splits)

lemma length_adapted: "length (adapted k zs) = length zs"
  by (induction k zs rule: adapted.induct) auto

lemma adapted_nth:
  "i < length zs \<Longrightarrow>
     adapted k zs ! i
       = (if fst (zs ! i) then Defined (k + length (filter fst (take i zs)))
          else Raw (snd (zs ! i)))"
proof (induction k zs arbitrary: i rule: adapted.induct)
  case (1 k)
  then show ?case by simp
next
  case (2 k is_symbolic a rest)
  show ?case
  proof (cases i)
    case 0
    then show ?thesis by simp
  next
    case (Suc j)
    with "2.prems" have j: "j < length rest" by simp
    show ?thesis
    proof (cases is_symbolic)
      case True
      with "2.IH"(1) [OF True j] Suc show ?thesis by simp
    next
      case False
      with "2.IH"(2) [OF False j] Suc show ?thesis by simp
    qed
  qed
qed

lemma filter_fst_nth:
  "i < length zs \<Longrightarrow> fst (zs ! i) \<Longrightarrow>
     length (filter fst (take i zs)) < length (filter fst zs)
     \<and> filter fst zs ! length (filter fst (take i zs)) = zs ! i"
proof (induction zs arbitrary: i)
  case Nil
  then show ?case by simp
next
  case (Cons z zs)
  show ?case
  proof (cases i)
    case 0
    with Cons.prems show ?thesis by simp
  next
    case (Suc j)
    with Cons.prems have "j < length zs" and "fst (zs ! j)" by simp_all
    from Cons.IH [OF this] Suc show ?thesis by simp
  qed
qed

text \<open>
  X1. The lock-step of the adapter. When the definition-time adapter succeeds on a non-empty
  argument list, starting from a fusion definition without inputs, the descriptor it leaves
  has a marker for each argument, and the execution-time selector on that descriptor returns
  the values the input definitions were made from, in the order they were made. Position by
  position: a symbolic argument became the placeholder of definition number \<open>k\<close>, where \<open>k\<close>
  counts the symbolic positions before it, and the \<open>k\<close>-th selected value is that argument; a
  concrete argument was passed through as it is and is not a tensor.
\<close>

theorem adapter_lockstep:
  assumes ok: "parse_inputs_fusion_definition [] opinfo as = (Inr nvf_args, fd', opinfo')"
    and ne: "as \<noteq> []"
  shows "\<exists>spl selected.
           symbolic_parameter_list opinfo' = Some spl \<and> length spl = length as
           \<and> parse_args_fusion_execution fd' opinfo' as = Inr selected
           \<and> selected = map snd (filter fst (zip spl as))
           \<and> map fd_call_arg fd' = selected
           \<and> length nvf_args = length as
           \<and> (\<forall>i < length as.
                 if spl ! i
                 then nvf_args ! i = Defined (length (filter id (take i spl)))
                      \<and> length (filter id (take i spl)) < length selected
                      \<and> selected ! length (filter id (take i spl)) = as ! i
                 else nvf_args ! i = Raw (as ! i) \<and> \<not> is_tensor (as ! i))"
proof -
  define spl where "spl = (case symbolic_parameter_list opinfo of
                             None \<Rightarrow> replicate (length as) True | Some l \<Rightarrow> l)"
  let ?zs = "zip spl as"
  from ok ne have len: "length spl = length as"
    by (auto simp: parse_inputs_fusion_definition_def spl_def Let_def split: if_splits)
  from ok ne len have info: "opinfo' = opinfo\<lparr>symbolic_parameter_list := Some spl\<rparr>"
    by (auto simp: parse_inputs_fusion_definition_def spl_def Let_def split: if_splits prod.splits)
  from ok ne len have loop: "parse_inputs_loop ?zs [] [] = (Inr nvf_args, fd')"
    by (auto simp: parse_inputs_fusion_definition_def spl_def Let_def split: if_splits prod.splits)
  from parse_inputs_loop_adapted [OF loop]
  have calls: "map fd_call_arg fd' = map snd (filter fst ?zs)"
    and res: "nvf_args = adapted 0 ?zs"
    and conc: "\<forall>z \<in> set ?zs. \<not> fst z \<longrightarrow> \<not> is_tensor (snd z)"
    by simp_all
  have sel: "parse_args_fusion_execution fd' opinfo' as = Inr (map snd (filter fst ?zs))"
    by (simp add: parse_args_fusion_execution_def info)
  have lenr: "length nvf_args = length as"
    by (simp add: res length_adapted len)
  have pos: "if spl ! i
             then nvf_args ! i = Defined (length (filter id (take i spl)))
                  \<and> length (filter id (take i spl)) < length (map snd (filter fst ?zs))
                  \<and> map snd (filter fst ?zs) ! length (filter id (take i spl)) = as ! i
             else nvf_args ! i = Raw (as ! i) \<and> \<not> is_tensor (as ! i)"
    if i: "i < length as" for i
  proof -
    from i len have iz: "i < length ?zs" by simp
    have zi: "?zs ! i = (spl ! i, as ! i)" using i len by simp
    have cnt: "length (filter fst (take i ?zs)) = length (filter id (take i spl))"
    proof -
      have "map fst (filter fst (take i ?zs)) = filter id (map fst (take i ?zs))"
        by (simp add: filter_map comp_def)
      also have "map fst (take i ?zs) = take i spl"
        using len by (simp add: take_zip [symmetric] take_map [symmetric])
      finally show ?thesis
        by (metis length_map)
    qed
    show ?thesis
    proof (cases "spl ! i")
      case True
      with zi have f: "fst (?zs ! i)" by simp
      from filter_fst_nth [OF iz f] cnt zi
      have "length (filter id (take i spl)) < length (filter fst ?zs)"
        and "filter fst ?zs ! length (filter id (take i spl)) = (spl ! i, as ! i)"
        by simp_all
      moreover from adapted_nth [OF iz, of 0] f cnt res
      have "nvf_args ! i = Defined (length (filter id (take i spl)))" by simp
      ultimately show ?thesis using True by simp
    next
      case False
      with zi have f: "\<not> fst (?zs ! i)" by simp
      from adapted_nth [OF iz, of 0] f res zi have "nvf_args ! i = Raw (as ! i)" by simp
      moreover from conc iz f zi have "\<not> is_tensor (as ! i)"
        by (metis nth_mem snd_conv)
      ultimately show ?thesis using False by simp
    qed
  qed
  from pos have every: "\<forall>i < length as.
             if spl ! i
             then nvf_args ! i = Defined (length (filter id (take i spl)))
                  \<and> length (filter id (take i spl)) < length (map snd (filter fst ?zs))
                  \<and> map snd (filter fst ?zs) ! length (filter id (take i spl)) = as ! i
             else nvf_args ! i = Raw (as ! i) \<and> \<not> is_tensor (as ! i)"
    by blast
  have sp: "symbolic_parameter_list opinfo' = Some spl"
    by (simp add: info)
  from sp len sel calls lenr every show ?thesis
    by blast
qed

theorem adapter_lockstep_witness:
  "parse_inputs_fusion_definition [] example_op
       [PyTensor (MakeTensor \<lparr>mt_shape = [4, 4], mt_device = ''cuda'', mt_dtype = torch_float32,
          mt_low = None, mt_high = None, mt_requires_grad = False,
          mt_noncontiguous = False\<rparr> (0 :: nat)), PyInt 1]
     = (Inr [Defined 0, Defined 1],
        [from_pytorch (PyTensor (MakeTensor \<lparr>mt_shape = [4, 4], mt_device = ''cuda'',
           mt_dtype = torch_float32, mt_low = None, mt_high = None, mt_requires_grad = False,
           mt_noncontiguous = False\<rparr> 0)), define_scalar (PyInt 1)],
        example_op\<lparr>symbolic_parameter_list := Some [True, True]\<rparr>)
   \<and> parse_args_fusion_execution
       [from_pytorch (PyTensor (MakeTensor \<lparr>mt_shape = [4, 4], mt_device = ''cuda'',
           mt_dtype = torch_float32, mt_low = None, mt_high = None, mt_requires_grad = False,
           mt_noncontiguous = False\<rparr> (0 :: nat))), define_scalar (PyInt 1)]
       (example_op\<lparr>symbolic_parameter_list := Some [True, True]\<rparr>)
       [PyTensor (MakeTensor \<lparr>mt_shape = [4, 4], mt_device = ''cuda'', mt_dtype = torch_float32,
          mt_low = None, mt_high = None, mt_requires_grad = False,
          mt_noncontiguous = False\<rparr> 0), PyInt 1]
     = Inr [PyTensor (MakeTensor \<lparr>mt_shape = [4, 4], mt_device = ''cuda'',
          mt_dtype = torch_float32, mt_low = None, mt_high = None, mt_requires_grad = False,
          mt_noncontiguous = False\<rparr> 0), PyInt 1]"
proof -
  let ?t = "PyTensor (MakeTensor \<lparr>mt_shape = [4, 4], mt_device = ''cuda'',
          mt_dtype = torch_float32, mt_low = None, mt_high = None, mt_requires_grad = False,
          mt_noncontiguous = False\<rparr> (0 :: nat))"
  have run: "parse_inputs_fusion_definition [] example_op [?t, PyInt 1]
     = (Inr [Defined 0, Defined 1], [from_pytorch ?t, define_scalar (PyInt 1)],
        example_op\<lparr>symbolic_parameter_list := Some [True, True]\<rparr>)"
    by (simp add: parse_inputs_fusion_definition_def example_op_def Let_def numeral_2_eq_2)
  have ne: "[?t, PyInt 1] \<noteq> []" by simp
  from adapter_lockstep [OF run ne] run show ?thesis
    by auto
qed


end
